theory Spec2Isabelle
  imports Main
begin

section \<open>The export download handler of the e-commerce demo backend\<close>

text \<open>
  A shallow embedding of \<^verbatim>\<open>demos/ecommerce_shop/backend/routes/export.ts\<close>: the handler
  of \<^verbatim>\<open>POST /exports/download\<close>. The handler is one linear \<^verbatim>\<open>async\<close> function around a
  promise whose executor opens a write stream, issues an HTTPS GET and registers four
  callbacks. The embedding keeps that shape: every callback is a function on the state
  of the download (the promise and the world), the executor composes them in the order
  the runtime calls them, and the handler threads the world through its steps.

  What the platform does (the store, the URL parser, the file system, the network) is
  not in the source. It is a parameter of the model, the \<open>scenario\<close>: one outcome for
  each call the handler makes to the outside. Every theorem is about all scenarios that
  satisfy its hypotheses.
\<close>

subsection \<open>JavaScript values\<close>

text \<open>
  A thrown value or a rejection reason. The catch block of the handler tells an
  \<^verbatim>\<open>Error\<close> instance (with its message) from anything else.
\<close>

datatype thrown = Error string | NonError

text \<open>\<^verbatim>\<open>error instanceof Error ? error.message : "Unknown error"\<close>\<close>

definition details :: "thrown \<Rightarrow> string" where
  "details err = (case err of Error message \<Rightarrow> message | NonError \<Rightarrow> ''Unknown error'')"

text \<open>A possibly undefined string inside a template literal.\<close>

definition template :: "string option \<Rightarrow> string" where
  "template v = (case v of None \<Rightarrow> ''undefined'' | Some s \<Rightarrow> s)"

text \<open>Truthiness of an optional string: undefined and the empty string are falsy.\<close>

definition truthy :: "string option \<Rightarrow> bool" where
  "truthy v = (case v of None \<Rightarrow> False | Some s \<Rightarrow> s \<noteq> [])"

text \<open>The decimal digits of a number, as a template literal prints a status code.\<close>

definition digit :: "nat \<Rightarrow> char" where
  "digit n = ''0123456789'' ! n"

function string_of_nat :: "nat \<Rightarrow> string" where
  "string_of_nat n = (if n < 10 then [digit n] else string_of_nat (n div 10) @ [digit (n mod 10)])"
  by pat_completeness auto
termination
  by (relation "measure (\<lambda>n. n)") auto

declare string_of_nat.simps [simp del]

text \<open>\<^verbatim>\<open>s.split("/")\<close>: never empty; the empty string splits into one empty piece.\<close>

fun split_on :: "char \<Rightarrow> string \<Rightarrow> string list" where
  "split_on c [] = [[]]"
| "split_on c (x # xs) =
     (if x = c then [] # split_on c xs
      else (case split_on c xs of
              [] \<Rightarrow> [[x]]
            | s # ss \<Rightarrow> (x # s) # ss))"

text \<open>\<^verbatim>\<open>array.pop()\<close>: the last element, undefined on the empty array.\<close>

definition pop :: "'a list \<Rightarrow> 'a option" where
  "pop xs = (if xs = [] then None else Some (last xs))"

text \<open>
  \<^verbatim>\<open>s.replace(pattern, replacement)\<close> with a string pattern: the first occurrence only.
  The replacement of the source has no \<^verbatim>\<open>$\<close> pattern.
\<close>

fun replace_first :: "string \<Rightarrow> string \<Rightarrow> string \<Rightarrow> string" where
  "replace_first pat rep [] = (if pat = [] then rep else [])"
| "replace_first pat rep (c # cs) =
     (if take (length pat) (c # cs) = pat then rep @ drop (length pat) (c # cs)
      else c # replace_first pat rep cs)"

subsection \<open>Data model\<close>

text \<open>
  Modelled from the spec: the types of \<^verbatim>\<open>../models\<close> are not in the sources. A product
  has an identifier and optional design metadata; the design metadata carries the
  export URL. Both are extensible records: the fields the spec does not name are the
  \<open>more\<close> part, so a theorem about all records is a theorem about every other field.
  The request body is \<^verbatim>\<open>{ productId?: string, exportedDesignUrl: string }\<close>.
\<close>

record product_design =
  designExportUrl :: "string option"

record 'd product =
  product_id :: string
  canvaDesign :: "'d product_design_scheme option"

record request =
  productId :: "string option"
  exportedDesignUrl :: string

text \<open>The JSON bodies the handler sends, and a response with its status.\<close>

datatype body =
    ErrorBody string
  | ErrorDetailsBody string string
  | DownloadedExportUrl string

datatype response = Json nat body

text \<open>
  What a request ends in: a response, an error that leaves the handler (the rejection
  of the \<^verbatim>\<open>async\<close> function), or no response at all (a promise that never settles).
\<close>

datatype outcome = Responded response | Escaped thrown | NoResponse

subsection \<open>The world and what the platform does\<close>

text \<open>
  Modelled from the spec: the store of \<^verbatim>\<open>../database/database\<close> is not in the sources. It
  is a document store that offers read-all and a product update; the world holds its
  list of products, and \<^verbatim>\<open>db.read()\<close> returns that list or throws.

  The calls to the outside, in the order they are made. \<open>ResponseStatus\<close> is the status
  the response callback observes (the source logs it first thing).
\<close>

datatype effect =
    DbRead
  | FsExistsSync string
  | FsMkdirSync string
  | FsCreateWriteStream string
  | HttpsGet string
  | ResponseStatus nat
  | FsWrite string string
  | FsUnlink string
  | DbWriteProduct string

text \<open>
  \<^verbatim>\<open>fs.createWriteStream\<close> and \<^verbatim>\<open>fs.unlink\<close> are asynchronous: the call returns at once and
  the file system acts later. A call that has been made and has not yet acted is in
  flight.
\<close>

datatype fs_call = Opening string | Unlinking string

text \<open>
  The world: the files and directories on disk, the products of the store, the calls
  made so far, and the file system calls in flight. The world a function returns is
  the world at the moment it returns; \<open>afterwards\<close> (below) is the world once the calls
  in flight have acted.
\<close>

record ('d, 'p) world =
  files :: "string \<rightharpoonup> string"
  dirs :: "string set"
  products :: "('d, 'p) product_scheme list"
  effects :: "effect list"
  in_flight :: "fs_call list"

text \<open>
  What the GET does: \<^verbatim>\<open>https.get\<close> throws at once (a protocol it does not support); the
  request emits \<^verbatim>\<open>error\<close>; the response callback runs with a status and the whole body
  follows; or the response callback runs with status 200 and the connection is lost
  after some bytes of the body (nothing listens on the response, so the code hears
  nothing of it).
\<close>

datatype get_outcome =
    GetThrows thrown
  | GetError thrown
  | GetResponse nat string
  | GetBreaksOff string

text \<open>
  What \<^verbatim>\<open>fs.unlink\<close> does: the name is removed by the time the callback that called it
  returns; the name is removed later, after the handler has answered (nothing waits
  for the call); or the name is not removed, and the error goes to a callback that
  does not look at it.
\<close>

datatype unlink_outcome = Removed | RemovedLater | NotRemoved thrown

text \<open>
  One outcome for each call to the outside:
  \<^item> \<open>BACKEND_URL\<close>, \<open>dirname\<close>: the environment variable and \<^verbatim>\<open>__dirname\<close>;
  \<^item> \<open>url_pathname\<close>: \<^verbatim>\<open>new URL(s).pathname\<close>, or what the constructor throws;
  \<^item> \<open>db_read\<close>, \<open>mkdirSync_outcome\<close>, \<open>writeProduct_outcome\<close>: what the call throws, if it does;
  \<^item> \<open>open_outcome\<close>: the error of the write stream when the file cannot be opened;
  \<^item> \<open>open_late\<close>: the open of the write stream is still in flight when the callback of
    the request or of the response runs, so that an unlink called there can overtake it;
  \<^item> \<open>get_outcome\<close>: what the GET does;
  \<^item> \<open>write_outcome\<close>: the stream fails after so many bytes of the body, with an error;
  \<^item> \<open>unlink_outcome\<close>: what \<^verbatim>\<open>fs.unlink\<close> does.
\<close>

record scenario =
  BACKEND_URL :: "string option"
  dirname :: string
  url_pathname :: "string \<Rightarrow> thrown + string"
  db_read :: "thrown option"
  mkdirSync_outcome :: "thrown option"
  open_outcome :: "thrown option"
  open_late :: bool
  get_outcome :: get_outcome
  write_outcome :: "(nat \<times> thrown) option"
  unlink_outcome :: unlink_outcome
  writeProduct_outcome :: "thrown option"

definition record_effect :: "effect \<Rightarrow> ('d, 'p) world \<Rightarrow> ('d, 'p) world" where
  "record_effect e w = w\<lparr>effects := effects w @ [e]\<rparr>"

subsection \<open>The file system calls\<close>

text \<open>
  \<^verbatim>\<open>fs.createWriteStream(path)\<close> opens with flag \<^verbatim>\<open>w\<close>: the file is created, or truncated
  when it exists. The open has acted when the first callback of the network runs,
  unless it is late: then it stays in flight. A failed open changes nothing on disk
  (its \<^verbatim>\<open>error\<close> event is \<open>stream_opened\<close>, below).
\<close>

definition createWriteStream :: "scenario \<Rightarrow> string \<Rightarrow> ('d, 'p) world \<Rightarrow> ('d, 'p) world" where
  "createWriteStream sc path w =
     record_effect (FsCreateWriteStream path)
       (case open_outcome sc of
          None \<Rightarrow>
            if open_late sc then w\<lparr>in_flight := in_flight w @ [Opening path]\<rparr>
            else w\<lparr>files := (files w)(path \<mapsto> [])\<rparr>
        | Some _ \<Rightarrow> w)"

text \<open>
  \<^verbatim>\<open>fs.unlink(path, callback)\<close>, lines 80, 96 and 103. The callbacks of the source do not
  look at the error.
\<close>

definition unlink :: "scenario \<Rightarrow> string \<Rightarrow> ('d, 'p) world \<Rightarrow> ('d, 'p) world" where
  "unlink sc path w =
     record_effect (FsUnlink path)
       (case unlink_outcome sc of
          Removed \<Rightarrow> w\<lparr>files := (files w)(path := None)\<rparr>
        | RemovedLater \<Rightarrow> w\<lparr>in_flight := in_flight w @ [Unlinking path]\<rparr>
        | NotRemoved _ \<Rightarrow> w)"

text \<open>A call in flight acts; the world once all the calls in flight have acted, in the order they were made.\<close>

fun acts :: "fs_call \<Rightarrow> (string \<rightharpoonup> string) \<Rightarrow> (string \<rightharpoonup> string)" where
  "acts (Opening path) fs = fs(path \<mapsto> [])"
| "acts (Unlinking path) fs = fs(path := None)"

definition afterwards :: "('d, 'p) world \<Rightarrow> ('d, 'p) world" where
  "afterwards w = w\<lparr>files := fold acts (in_flight w) (files w), in_flight := []\<rparr>"

text \<open>
  A stream writes only once its file is open: an open in flight acts before the first
  byte is written.
\<close>

definition await_open :: "string \<Rightarrow> ('d, 'p) world \<Rightarrow> ('d, 'p) world" where
  "await_open path w =
     (if Opening path \<in> set (in_flight w)
      then w\<lparr>files := (files w)(path \<mapsto> []), in_flight := removeAll (Opening path) (in_flight w)\<rparr>
      else w)"

text \<open>Bytes written through the stream are appended to the file while its name exists.\<close>

definition write_bytes :: "string \<Rightarrow> string \<Rightarrow> ('d, 'p) world \<Rightarrow> ('d, 'p) world" where
  "write_bytes path bytes w =
     record_effect (FsWrite path bytes)
       (case files w path of
          None \<Rightarrow> w
        | Some old \<Rightarrow> w\<lparr>files := (files w)(path \<mapsto> old @ bytes)\<rparr>)"

text \<open>
  Lines 67 to 70: \<^verbatim>\<open>existsSync\<close>, then \<^verbatim>\<open>mkdirSync\<close> with \<^verbatim>\<open>recursive\<close> when the directory
  is missing. The result is what \<^verbatim>\<open>mkdirSync\<close> throws.
\<close>

definition ensure_directory ::
  "scenario \<Rightarrow> string \<Rightarrow> ('d, 'p) world \<Rightarrow> thrown option \<times> ('d, 'p) world" where
  "ensure_directory sc path w =
     (let w1 = record_effect (FsExistsSync path) w in
      if path \<in> dirs w then (None, w1)
      else (case mkdirSync_outcome sc of
              Some err \<Rightarrow> (Some err, record_effect (FsMkdirSync path) w1)
            | None \<Rightarrow> (None, record_effect (FsMkdirSync path) (w1\<lparr>dirs := insert path (dirs w1)\<rparr>))))"

subsection \<open>The product store\<close>

text \<open>
  Modelled from the spec: \<^verbatim>\<open>writeProduct\<close> of \<^verbatim>\<open>./product\<close> is not in the sources. It is
  the product-update operation of the document store: the stored product with the
  identifier of the given one is replaced by it.
\<close>

fun replace_product ::
  "('d, 'p) product_scheme \<Rightarrow> ('d, 'p) product_scheme list \<Rightarrow> ('d, 'p) product_scheme list" where
  "replace_product p [] = []"
| "replace_product p (q # qs) =
     (if product_id q = product_id p then p # qs else q # replace_product p qs)"

definition writeProduct ::
  "scenario \<Rightarrow> ('d, 'p) product_scheme \<Rightarrow> ('d, 'p) world \<Rightarrow> thrown option \<times> ('d, 'p) world" where
  "writeProduct sc p w =
     (let w1 = record_effect (DbWriteProduct (product_id p)) w in
      case writeProduct_outcome sc of
        Some err \<Rightarrow> (Some err, w1)
      | None \<Rightarrow> (None, w1\<lparr>products := replace_product p (products w1)\<rparr>))"

subsection \<open>The download promise (lines 73 to 110)\<close>

datatype promise = Pending | Resolved | Rejected thrown

text \<open>A promise settles once: later calls of \<^verbatim>\<open>resolve\<close> and \<^verbatim>\<open>reject\<close> do nothing.\<close>

definition resolve :: "promise \<Rightarrow> promise" where
  "resolve p = (case p of Pending \<Rightarrow> Resolved | _ \<Rightarrow> p)"

definition reject :: "thrown \<Rightarrow> promise \<Rightarrow> promise" where
  "reject err p = (case p of Pending \<Rightarrow> Rejected err | _ \<Rightarrow> p)"

type_synonym ('d, 'p) download_state = "promise \<times> ('d, 'p) world"

text \<open>Lines 89 to 93, \<^verbatim>\<open>file.on("finish", ...)\<close>: logs whether the file exists, resolves.\<close>

definition on_finish :: "string \<Rightarrow> ('d, 'p) download_state \<Rightarrow> ('d, 'p) download_state" where
  "on_finish path = (\<lambda>(p, w). (resolve p, record_effect (FsExistsSync path) w))"

text \<open>Lines 95 to 100, \<^verbatim>\<open>request.on("error", ...)\<close>: calls unlink, then rejects.\<close>

definition on_request_error ::
  "scenario \<Rightarrow> string \<Rightarrow> thrown \<Rightarrow> ('d, 'p) download_state \<Rightarrow> ('d, 'p) download_state" where
  "on_request_error sc path err = (\<lambda>(p, w). (reject err p, unlink sc path w))"

text \<open>Lines 102 to 107, \<^verbatim>\<open>file.on("error", ...)\<close>: calls unlink, then rejects.\<close>

definition on_file_error ::
  "scenario \<Rightarrow> string \<Rightarrow> thrown \<Rightarrow> ('d, 'p) download_state \<Rightarrow> ('d, 'p) download_state" where
  "on_file_error sc path err = (\<lambda>(p, w). (reject err p, unlink sc path w))"

text \<open>
  \<^verbatim>\<open>response.pipe(file)\<close> and what the runtime then does. The bytes that arrive go
  through the stream, once its file is open. The stream fails after some bytes and
  emits \<^verbatim>\<open>error\<close>; or the body is \<open>complete\<close>, the pipe ends the stream and the stream
  emits \<^verbatim>\<open>finish\<close>; or the connection was lost, the pipe never ends the stream, and no
  callback of the source runs any more. A stream that could not be opened is
  destroyed: it takes no bytes and emits nothing more.
\<close>

definition pipe ::
  "scenario \<Rightarrow> string \<Rightarrow> string \<Rightarrow> bool \<Rightarrow> ('d, 'p) download_state \<Rightarrow> ('d, 'p) download_state" where
  "pipe sc path bytes complete = (\<lambda>(p, w).
     case open_outcome sc of
       Some _ \<Rightarrow> (p, w)
     | None \<Rightarrow>
         (case write_outcome sc of
            Some (n, err) \<Rightarrow>
              on_file_error sc path err (p, write_bytes path (take n bytes) (await_open path w))
          | None \<Rightarrow>
              if complete then on_finish path (p, write_bytes path bytes (await_open path w))
              else (p, write_bytes path bytes (await_open path w))))"

text \<open>
  Lines 77 to 87, the callback of \<^verbatim>\<open>https.get\<close>, for a response with this status, these
  bytes of body arriving, and the body complete or not.
\<close>

definition on_response ::
  "scenario \<Rightarrow> string \<Rightarrow> nat \<Rightarrow> string \<Rightarrow> bool
     \<Rightarrow> ('d, 'p) download_state \<Rightarrow> ('d, 'p) download_state" where
  "on_response sc path statusCode bytes complete = (\<lambda>(p, w).
     let w1 = record_effect (ResponseStatus statusCode) w in
     if statusCode \<noteq> 200
     then (reject (Error (''Failed to download: '' @ string_of_nat statusCode)) p,
           unlink sc path w1)
     else pipe sc path bytes complete (p, w1))"

text \<open>
  The \<^verbatim>\<open>error\<close> event of a stream whose file could not be opened. Opening is local, so
  the event comes before anything from the network.
\<close>

definition stream_opened ::
  "scenario \<Rightarrow> string \<Rightarrow> ('d, 'p) download_state \<Rightarrow> ('d, 'p) download_state" where
  "stream_opened sc path st =
     (case open_outcome sc of
        None \<Rightarrow> st
      | Some err \<Rightarrow> on_file_error sc path err st)"

text \<open>
  The executor: line 74 opens the stream, line 77 issues the GET, then the callbacks
  are registered and the runtime calls them. When \<^verbatim>\<open>https.get\<close> itself throws, the
  executor throws, the promise is rejected with what was thrown, and no callback of
  lines 89 to 107 is ever registered (an \<^verbatim>\<open>error\<close> event of the stream would find no
  listener then; the model stops at the rejection).
\<close>

definition download ::
  "scenario \<Rightarrow> string \<Rightarrow> string \<Rightarrow> ('d, 'p) world \<Rightarrow> ('d, 'p) download_state" where
  "download sc path url w =
     (let w1 = createWriteStream sc path w;
          w2 = record_effect (HttpsGet url) w1
      in case get_outcome sc of
           GetThrows err \<Rightarrow> (Rejected err, w2)
         | GetError err \<Rightarrow> on_request_error sc path err (stream_opened sc path (Pending, w2))
         | GetResponse statusCode bytes \<Rightarrow>
             on_response sc path statusCode bytes True (stream_opened sc path (Pending, w2))
         | GetBreaksOff bytes \<Rightarrow>
             on_response sc path 200 bytes False (stream_opened sc path (Pending, w2)))"

subsection \<open>The handler (lines 22 to 136)\<close>

text \<open>Lines 34 to 42: the early returns when a product identifier is given.\<close>

definition product_check ::
  "request \<Rightarrow> ('d, 'p) product_scheme option \<Rightarrow> response option" where
  "product_check requestBody product =
     (if truthy (productId requestBody) then
        (case product of
           None \<Rightarrow> Some (Json 404 (ErrorBody ''Product not found''))
         | Some p \<Rightarrow>
             (case canvaDesign p of
                None \<Rightarrow> Some (Json 400 (ErrorBody ''No design found for product''))
              | Some _ \<Rightarrow> None))
      else None)"

text \<open>Lines 45 to 53: the file name is the last piece of the path of the URL.\<close>

definition fileName_of :: "scenario \<Rightarrow> request \<Rightarrow> thrown + string" where
  "fileName_of sc requestBody =
     (case url_pathname sc (exportedDesignUrl requestBody) of
        Inl err \<Rightarrow> Inl err
      | Inr exportPathName \<Rightarrow>
          (case pop (split_on CHR ''/'' exportPathName) of
             None \<Rightarrow> Inl (Error ''Could not extract filename from export URL'')
           | Some fileName \<Rightarrow>
               if fileName = [] then Inl (Error ''Could not extract filename from export URL'')
               else Inr fileName))"

text \<open>Lines 57 to 60.\<close>

definition destinationPath :: "scenario \<Rightarrow> string" where
  "destinationPath sc = replace_first ''/routes'' ''/public/exports'' (dirname sc)"

definition destinationFile :: "scenario \<Rightarrow> string \<Rightarrow> string" where
  "destinationFile sc fileName = destinationPath sc @ ''/'' @ fileName"

definition designExportUrl_of :: "scenario \<Rightarrow> string \<Rightarrow> string" where
  "designExportUrl_of sc fileName = template (BACKEND_URL sc) @ ''/public/exports/'' @ fileName"

text \<open>
  Lines 113 to 122: the product found at line 31 is written back with the export URL
  of its design replaced. The design is there whenever this is reached (line 39
  returned otherwise); without one the product is written as it is.
\<close>

definition with_export_url :: "('d, 'p) product_scheme \<Rightarrow> string \<Rightarrow> ('d, 'p) product_scheme" where
  "with_export_url product url =
     product\<lparr>canvaDesign :=
       (case canvaDesign product of
          None \<Rightarrow> None
        | Some design \<Rightarrow> Some (design\<lparr>designExportUrl := Some url\<rparr>))\<rparr>"

definition update_product ::
  "scenario \<Rightarrow> request \<Rightarrow> ('d, 'p) product_scheme option \<Rightarrow> string \<Rightarrow> ('d, 'p) world
     \<Rightarrow> thrown option \<times> ('d, 'p) world" where
  "update_product sc requestBody product url w =
     (case product of
        None \<Rightarrow> (None, w)
      | Some p \<Rightarrow>
          if truthy (productId requestBody) then writeProduct sc (with_export_url p url) w
          else (None, w))"

text \<open>Lines 31 to 33: the first product of the store with the identifier of the request.\<close>

definition find_product ::
  "request \<Rightarrow> ('d, 'p) world \<Rightarrow> ('d, 'p) product_scheme option" where
  "find_product requestBody w =
     find (\<lambda>product. Some (product_id product) = productId requestBody) (products w)"

text \<open>
  What a piece of the \<^verbatim>\<open>try\<close> body ends in: it returns a response, throws, or waits
  for ever on a promise that does not settle.
\<close>

datatype completion = Returns response | Throws thrown | Hangs

text \<open>
  The \<^verbatim>\<open>await\<close> of line 73 and lines 112 to 127: a rejection is thrown; after a
  resolution the product is updated and the success response returned.
\<close>

definition after_download ::
  "scenario \<Rightarrow> request \<Rightarrow> ('d, 'p) product_scheme option \<Rightarrow> string
     \<Rightarrow> ('d, 'p) download_state \<Rightarrow> completion \<times> ('d, 'p) world" where
  "after_download sc requestBody product fileName = (\<lambda>(p, w2).
     case p of
       Rejected err \<Rightarrow> (Throws err, w2)
     | Pending \<Rightarrow> (Hangs, w2)
     | Resolved \<Rightarrow>
         (case update_product sc requestBody product (designExportUrl_of sc fileName) w2 of
            (Some err, w3) \<Rightarrow> (Throws err, w3)
          | (None, w3) \<Rightarrow>
              (Returns (Json 200 (DownloadedExportUrl (designExportUrl_of sc fileName))), w3)))"

text \<open>The body of the \<^verbatim>\<open>try\<close>, lines 29 to 127.\<close>

definition try_body ::
  "scenario \<Rightarrow> request \<Rightarrow> ('d, 'p) world \<Rightarrow> completion \<times> ('d, 'p) world" where
  "try_body sc requestBody w =
     (let product = find_product requestBody w
      in case product_check requestBody product of
           Some res \<Rightarrow> (Returns res, w)
         | None \<Rightarrow>
             (case fileName_of sc requestBody of
                Inl err \<Rightarrow> (Throws err, w)
              | Inr fileName \<Rightarrow>
                  (case ensure_directory sc (destinationPath sc) w of
                     (Some err, w1) \<Rightarrow> (Throws err, w1)
                   | (None, w1) \<Rightarrow>
                       after_download sc requestBody product fileName
                         (download sc (destinationFile sc fileName)
                            (exportedDesignUrl requestBody) w1))))"

text \<open>
  How a completion of the body is answered: a returned response is sent as it is, and
  the catch block, lines 128 to 135, answers whatever was thrown with a 500.
\<close>

definition respond :: "completion \<times> ('d, 'p) world \<Rightarrow> outcome \<times> ('d, 'p) world" where
  "respond = (\<lambda>(c, w).
     case c of
       Returns res \<Rightarrow> (Responded res, w)
     | Throws err \<Rightarrow>
         (Responded (Json 500 (ErrorDetailsBody ''Failed to download exported design'' (details err))), w)
     | Hangs \<Rightarrow> (NoResponse, w))"

text \<open>
  The handler: line 24 reads the store before the \<^verbatim>\<open>try\<close> begins, so what the read
  throws leaves the handler as the rejection of the \<^verbatim>\<open>async\<close> function.
\<close>

definition handler ::
  "scenario \<Rightarrow> request \<Rightarrow> ('d, 'p) world \<Rightarrow> outcome \<times> ('d, 'p) world" where
  "handler sc requestBody w =
     (let w0 = record_effect DbRead w in
      case db_read sc of
        Some err \<Rightarrow> (Escaped err, w0)
      | None \<Rightarrow> respond (try_body sc requestBody w0))"

subsection \<open>Notions the properties are stated with\<close>

text \<open>
  The download fails and one of the three callbacks of lines 79 to 85 and 95 to 107
  hears of it: the request emits \<^verbatim>\<open>error\<close>; the response has a status other than 200;
  or, with a response of status 200, the write stream emits \<^verbatim>\<open>error\<close> (its file cannot
  be opened, or a write fails). It is not so when \<^verbatim>\<open>https.get\<close> throws (no callback is
  registered then, whatever the stream does), nor when a response of status 200 breaks
  off and the stream is sound.
\<close>

definition download_fails :: "scenario \<Rightarrow> bool" where
  "download_fails sc =
     (case get_outcome sc of
        GetThrows _ \<Rightarrow> False
      | GetError _ \<Rightarrow> True
      | GetResponse statusCode _ \<Rightarrow>
          statusCode \<noteq> 200 \<or> open_outcome sc \<noteq> None \<or> write_outcome sc \<noteq> None
      | GetBreaksOff _ \<Rightarrow> open_outcome sc \<noteq> None \<or> write_outcome sc \<noteq> None)"

text \<open>The unlink removes the name, at once or later.\<close>

definition unlink_succeeds :: "scenario \<Rightarrow> bool" where
  "unlink_succeeds sc = (case unlink_outcome sc of NotRemoved _ \<Rightarrow> False | _ \<Rightarrow> True)"

text \<open>The bytes of the response body that arrive.\<close>

definition arrived :: "scenario \<Rightarrow> string" where
  "arrived sc =
     (case get_outcome sc of
        GetResponse statusCode bytes \<Rightarrow> bytes
      | GetBreaksOff bytes \<Rightarrow> bytes
      | _ \<Rightarrow> [])"







subsection \<open>A concrete installation\<close>

text \<open>
  The backend under \<^verbatim>\<open>/app/backend\<close>, served at \<^verbatim>\<open>http://localhost:3001\<close>; a store with a
  product that has a design and one that has none; a remote export that is there; a
  file system that does what it is asked, in time. The second world has the exports
  directory, with a file of an earlier export in it.
\<close>

definition example_scenario :: scenario where
  "example_scenario =
     \<lparr>BACKEND_URL = Some ''http://localhost:3001'',
      dirname = ''/app/backend/routes'',
      url_pathname = (\<lambda>url.
         if url = ''https://export.example/x/y/a.png'' then Inr ''/x/y/a.png''
         else if url = ''https://host'' then Inr ''/''
         else Inl (Error ''Invalid URL'')),
      db_read = None,
      mkdirSync_outcome = None,
      open_outcome = None,
      open_late = False,
      get_outcome = GetResponse 200 ''PNG'',
      write_outcome = None,
      unlink_outcome = Removed,
      writeProduct_outcome = None\<rparr>"

definition example_world :: "(unit, unit) world" where
  "example_world =
     \<lparr>files = Map.empty,
      dirs = {},
      products =
        [\<lparr>product_id = ''p1'', canvaDesign = Some \<lparr>designExportUrl = Some ''https://export.example/old''\<rparr>\<rparr>,
         \<lparr>product_id = ''p2'', canvaDesign = None\<rparr>],
      effects = [],
      in_flight = []\<rparr>"

definition example_world_with_file :: "(unit, unit) world" where
  "example_world_with_file =
     example_world
       \<lparr>files := [''/app/backend/public/exports/a.png'' \<mapsto> ''OLD''],
        dirs := {''/app/backend/public/exports''}\<rparr>"

definition example_request :: request where
  "example_request = \<lparr>productId = Some ''p1'', exportedDesignUrl = ''https://export.example/x/y/a.png''\<rparr>"

section \<open>Properties\<close>

subsection \<open>What each step leaves unchanged\<close>

lemma files_record_effect [simp]: "files (record_effect e w) = files w"
  and dirs_record_effect [simp]: "dirs (record_effect e w) = dirs w"
  and products_record_effect [simp]: "products (record_effect e w) = products w"
  and effects_record_effect [simp]: "effects (record_effect e w) = effects w @ [e]"
  and in_flight_record_effect [simp]: "in_flight (record_effect e w) = in_flight w"
  by (simp_all add: record_effect_def)

lemma products_unlink [simp]: "products (unlink sc path w) = products w"
  and effects_unlink [simp]: "effects (unlink sc path w) = effects w @ [FsUnlink path]"
  by (simp_all add: unlink_def split: unlink_outcome.splits)

lemma products_await_open [simp]: "products (await_open path w) = products w"
  and effects_await_open [simp]: "effects (await_open path w) = effects w"
  and files_await_open: "files w path = Some [] \<Longrightarrow> files (await_open path w) = files w"
  by (auto simp: await_open_def)

lemma files_ensure_directory [simp]: "files (snd (ensure_directory sc path w)) = files w"
  and products_ensure_directory [simp]: "products (snd (ensure_directory sc path w)) = products w"
  and in_flight_ensure_directory [simp]: "in_flight (snd (ensure_directory sc path w)) = in_flight w"
  by (simp_all add: ensure_directory_def Let_def split: option.splits)

lemma find_product_record_effect [simp]: "find_product req (record_effect e w) = find_product req w"
  by (simp add: find_product_def)

lemma download_products [simp]: "products (snd (download sc f url w)) = products w"
  by (auto simp: download_def stream_opened_def on_request_error_def createWriteStream_def
      on_response_def on_file_error_def pipe_def Let_def on_finish_def write_bytes_def
      split: get_outcome.splits option.splits)

subsection \<open>The download\<close>

lemma download_rejects:
  assumes "download_fails sc"
  shows "\<exists>err. fst (download sc f url w) = Rejected err"
  using assms
  by (auto simp: download_fails_def download_def stream_opened_def on_request_error_def
      on_response_def on_file_error_def pipe_def reject_def Let_def
      split: get_outcome.splits option.splits promise.splits)

lemma download_fails_effects:
  assumes "download_fails sc"
  shows "FsUnlink f \<in> set (effects (snd (download sc f url w)))"
  using assms
  by (auto simp: download_fails_def download_def stream_opened_def on_request_error_def
      on_response_def on_file_error_def pipe_def Let_def
      split: get_outcome.splits option.splits)

text \<open>With the open on time and an unlink that acts at once, the name is gone when the download returns.\<close>

lemma download_fails_removed:
  assumes "download_fails sc"
    and "\<not> open_late sc"
    and "unlink_outcome sc = Removed"
  shows "files (snd (download sc f url w)) f = None"
  using assms
  by (auto simp: download_fails_def download_def stream_opened_def on_request_error_def
      on_response_def on_file_error_def pipe_def unlink_def record_effect_def Let_def
      split: get_outcome.splits option.splits)

text \<open>With the open on time and an unlink that acts, the name is gone afterwards.\<close>

lemma download_fails_afterwards:
  assumes "download_fails sc"
    and "\<not> open_late sc"
    and "unlink_succeeds sc"
    and "in_flight w = []"
  shows "files (afterwards (snd (download sc f url w))) f = None"
  using assms
  by (auto simp: download_fails_def unlink_succeeds_def download_def stream_opened_def
      on_request_error_def on_response_def on_file_error_def pipe_def unlink_def
      createWriteStream_def await_open_def write_bytes_def afterwards_def record_effect_def Let_def
      split: get_outcome.splits option.splits unlink_outcome.splits)

text \<open>
  With the stream open, what is at the path afterwards is nothing or a piece of what
  arrived: never what was there before.
\<close>

lemmas download_unfold =
  download_def stream_opened_def on_request_error_def on_response_def pipe_def on_file_error_def
  unlink_def createWriteStream_def await_open_def write_bytes_def afterwards_def record_effect_def

lemma download_fails_prefix:
  assumes "download_fails sc"
    and "open_outcome sc = None"
    and "in_flight w = []"
  shows "files (afterwards (snd (download sc f url w))) f = None
       \<or> (\<exists>n. files (afterwards (snd (download sc f url w))) f = Some (take n (arrived sc)))"
proof (cases "get_outcome sc")
  case (GetThrows err)
  then show ?thesis
    using assms(1) by (simp add: download_fails_def)
next
  case (GetError err)
  have "files (afterwards (snd (download sc f url w))) f = None
      \<or> files (afterwards (snd (download sc f url w))) f = Some (take 0 (arrived sc))"
    using assms(2,3) GetError
    by (cases "unlink_outcome sc"; cases "open_late sc") (simp_all add: download_unfold Let_def)
  then show ?thesis by blast
next
  case (GetResponse statusCode bytes)
  show ?thesis
  proof (cases "statusCode = 200")
    case True
    then obtain n err where wo: "write_outcome sc = Some (n, err)"
      using assms(1,2) GetResponse by (auto simp: download_fails_def)
    have "files (afterwards (snd (download sc f url w))) f = None
        \<or> files (afterwards (snd (download sc f url w))) f = Some (take n (arrived sc))"
      using assms(2,3) GetResponse True wo
      by (cases "unlink_outcome sc"; cases "open_late sc")
         (simp_all add: download_unfold arrived_def Let_def)
    then show ?thesis by blast
  next
    case False
    have "files (afterwards (snd (download sc f url w))) f = None
        \<or> files (afterwards (snd (download sc f url w))) f = Some (take 0 (arrived sc))"
      using assms(2,3) GetResponse False
      by (cases "unlink_outcome sc"; cases "open_late sc") (simp_all add: download_unfold Let_def)
    then show ?thesis by blast
  qed
next
  case (GetBreaksOff bytes)
  then obtain n err where wo: "write_outcome sc = Some (n, err)"
    using assms(1,2) by (auto simp: download_fails_def)
  have "files (afterwards (snd (download sc f url w))) f = None
      \<or> files (afterwards (snd (download sc f url w))) f = Some (take n (arrived sc))"
    using assms(2,3) GetBreaksOff wo
    by (cases "unlink_outcome sc"; cases "open_late sc")
       (simp_all add: download_unfold arrived_def Let_def)
  then show ?thesis by blast
qed

lemma download_succeeds:
  assumes "open_outcome sc = None"
    and "get_outcome sc = GetResponse 200 bytes"
    and "write_outcome sc = None"
  shows "fst (download sc f url w) = Resolved"
    and "files (snd (download sc f url w)) = (files w)(f \<mapsto> bytes)"
  using assms
  by (auto simp: download_def stream_opened_def createWriteStream_def await_open_def
      on_response_def pipe_def Let_def on_finish_def write_bytes_def resolve_def)

text \<open>
  A response of status 200 that breaks off, with a sound stream: the promise never
  settles, the bytes that arrived stay in the file, and unlink is not called.
\<close>

lemma download_breaks_off:
  assumes "open_outcome sc = None"
    and "get_outcome sc = GetBreaksOff bytes"
    and "write_outcome sc = None"
  shows "fst (download sc f url w) = Pending"
    and "files (snd (download sc f url w)) = (files w)(f \<mapsto> bytes)"
    and "effects (snd (download sc f url w)) =
           effects w @ [FsCreateWriteStream f, HttpsGet url, ResponseStatus 200, FsWrite f bytes]"
  using assms
  by (auto simp: download_def stream_opened_def createWriteStream_def await_open_def
      on_response_def pipe_def Let_def write_bytes_def)

lemma download_settles:
  assumes "\<forall>bytes. get_outcome sc \<noteq> GetBreaksOff bytes"
  shows "fst (download sc f url w) \<noteq> Pending"
  using assms
  by (auto simp: download_def stream_opened_def on_request_error_def
      on_response_def on_file_error_def pipe_def on_finish_def reject_def resolve_def Let_def
      split: get_outcome.splits option.splits promise.splits)

subsection \<open>A request that reaches the download\<close>

lemma handler_reaches_download:
  assumes "db_read sc = None"
    and "product_check req (find_product req w) = None"
    and "fileName_of sc req = Inr fileName"
    and "destinationPath sc \<in> dirs w \<or> mkdirSync_outcome sc = None"
  shows "handler sc req w =
           respond (after_download sc req (find_product req w) fileName
             (download sc (destinationFile sc fileName) (exportedDesignUrl req)
                (snd (ensure_directory sc (destinationPath sc) (record_effect DbRead w)))))"
proof -
  obtain r w1 where e: "ensure_directory sc (destinationPath sc) (record_effect DbRead w) = (r, w1)"
    by (cases "ensure_directory sc (destinationPath sc) (record_effect DbRead w)")
  have "r = None"
    using assms(4) e by (auto simp: ensure_directory_def Let_def split: option.splits if_splits)
  then show ?thesis
    using assms(1-3) e by (simp add: handler_def try_body_def Let_def)
qed

lemma respond_rejected:
  "fst st = Rejected err \<Longrightarrow>
   respond (after_download sc req product fileName st) =
     (Responded (Json 500 (ErrorDetailsBody ''Failed to download exported design'' (details err))), snd st)"
  by (cases st) (simp add: respond_def after_download_def)

lemma handler_download_fails:
  assumes "db_read sc = None"
    and "product_check req (find_product req w) = None"
    and "fileName_of sc req = Inr fileName"
    and "destinationPath sc \<in> dirs w \<or> mkdirSync_outcome sc = None"
    and "download_fails sc"
  shows "\<exists>err. handler sc req w =
           (Responded (Json 500 (ErrorDetailsBody ''Failed to download exported design'' (details err))),
            snd (download sc (destinationFile sc fileName) (exportedDesignUrl req)
                   (snd (ensure_directory sc (destinationPath sc) (record_effect DbRead w)))))"
proof -
  let ?w1 = "snd (ensure_directory sc (destinationPath sc) (record_effect DbRead w))"
  let ?st = "download sc (destinationFile sc fileName) (exportedDesignUrl req) ?w1"
  obtain err where rej: "fst ?st = Rejected err"
    using download_rejects [OF assms(5)] by blast
  have "handler sc req w =
      (Responded (Json 500 (ErrorDetailsBody ''Failed to download exported design'' (details err))), snd ?st)"
    using handler_reaches_download [OF assms(1-4)] respond_rejected [OF rej] by simp
  then show ?thesis by blast
qed

subsection \<open>The order of the effects\<close>









subsection \<open>The file name\<close>

lemma split_on_not_Nil: "split_on c s \<noteq> []"
  by (induction s) (auto split: list.splits)

lemma split_on_single_empty: "(split_on c s = [[]]) = (s = [])"
  by (induction s) (auto simp: split_on_not_Nil split: list.splits)

text \<open>The last piece is empty exactly for the empty path and for a path that ends in the separator.\<close>

lemma last_split_on_empty: "(last (split_on c s) = []) = (s = [] \<or> last s = c)"
  by (induction s) (auto simp: split_on_not_Nil split_on_single_empty split: list.splits)

lemma pop_split_on_empty:
  "(pop (split_on c s) = Some []) = (s = [] \<or> last s = c)"
  by (simp add: pop_def split_on_not_Nil last_split_on_empty)

subsection \<open>When the GET cannot be issued\<close>

text \<open>
  When \<^verbatim>\<open>https.get\<close> throws, the promise is rejected with what was thrown, and the file
  that the stream of line 74 creates stays, empty: no callback was registered that
  would call unlink.
\<close>

lemma download_get_throws:
  assumes "get_outcome sc = GetThrows err" and "open_outcome sc = None"
  shows "fst (download sc f url w) = Rejected err"
    and "in_flight w = [] \<Longrightarrow> files (afterwards (snd (download sc f url w))) f = Some []"
    and "effects (snd (download sc f url w)) = effects w @ [FsCreateWriteStream f, HttpsGet url]"
  using assms by (simp_all add: download_def createWriteStream_def afterwards_def Let_def)

subsection \<open>Requests without a truthy product identifier\<close>

lemma product_check_falsy:
  "\<not> truthy (productId req) \<Longrightarrow> product_check req product = None"
  by (simp add: product_check_def)

lemma after_download_falsy:
  "\<not> truthy (productId req) \<Longrightarrow> \<not> truthy (productId req') \<Longrightarrow>
   after_download sc req product fileName st = after_download sc req' product' fileName st"
  by (cases st) (simp add: after_download_def update_product_def split: option.splits promise.splits)

lemma fileName_of_productId [simp]:
  "fileName_of sc (req\<lparr>productId := v\<rparr>) = fileName_of sc req"
  by (simp add: fileName_of_def)

lemma find_product_None:
  "productId req = Some pid \<Longrightarrow>
   (find_product req w = None) = (pid \<notin> product_id ` set (products w))"
  by (auto simp: find_product_def find_None_iff)

subsection \<open>Evaluating the concrete installation\<close>

lemmas example_defs =
  example_scenario_def example_world_def example_world_with_file_def example_request_def

lemmas stage_defs =
  fileName_of_def product_check_def find_product_def truthy_def pop_def
  destinationFile_def destinationPath_def

lemmas run_defs =
  handler_def try_body_def respond_def after_download_def update_product_def writeProduct_def
  with_export_url_def product_check_def find_product_def fileName_of_def pop_def truthy_def
  details_def template_def destinationPath_def destinationFile_def designExportUrl_of_def
  ensure_directory_def download_def stream_opened_def createWriteStream_def await_open_def
  on_response_def on_request_error_def on_file_error_def on_finish_def pipe_def
  write_bytes_def unlink_def afterwards_def resolve_def reject_def record_effect_def

section \<open>The claims\<close>

text \<open>
  The hypotheses of the theorems below name the steps of the handler a request has
  passed: the store was read (\<open>db_read sc = None\<close>), the product check of lines 34 to 42
  returned nothing, the file name was extracted, the exports directory is there or can
  be made. The effects recorded in the world are the calls made, in the order they are
  made; a callback of the download calls unlink before it rejects the promise, and the
  handler answers after the rejection. The world the handler returns is the world when
  the callbacks of the download have run and the handler has answered (in a run with
  one fault, the world at the moment it answers); \<open>afterwards\<close> of it is the world once
  the file system calls still in flight have acted.
\<close>

subsection \<open>C1: cleanup after a failure\<close>

text \<open>
  Claim C1 says that after every failure once the download has started (a status that
  is not a success, a transport error, a write error, or a later failure such as the
  store update throwing), the file at the destination path is deleted before the error
  response is sent. Six runs of the concrete installation where it is not so:
  \<^item> the store update throws after a finished download: the catch block, lines 128 to
    135, calls no unlink, the answer is 500 and the downloaded file stays;
  \<^item> a transport error: the response of status 200 breaks off after two bytes; no
    callback hears of it, unlink is not called, the two bytes stay in the file and
    the request is never answered;
  \<^item> the status is 404 and the unlink fails: the callback of line 80 does not look at
    the error, the answer is 500 and the empty file stays;
  \<^item> the status is 404 and the unlink acts only after the answer: when the 500 is
    sent the empty file is still there;
  \<^item> \<^verbatim>\<open>https.get\<close> throws: the stream of line 74 has created the file, no callback is
    registered, the answer is 500 and the empty file stays;
  \<^item> the request emits \<^verbatim>\<open>error\<close> while the open of the stream is still in flight: the
    unlink finds nothing to remove, the answer is 500, and the open then creates
    the file.
\<close>

theorem cleanup_gaps_counterexample:
  "(fst (handler (example_scenario\<lparr>writeProduct_outcome := Some (Error ''EIO: i/o error, write'')\<rparr>)
          example_request example_world) =
      Responded (Json 500 (ErrorDetailsBody ''Failed to download exported design'' ''EIO: i/o error, write''))
    \<and> files (afterwards (snd (handler
          (example_scenario\<lparr>writeProduct_outcome := Some (Error ''EIO: i/o error, write'')\<rparr>)
          example_request example_world))) ''/app/backend/public/exports/a.png'' = Some ''PNG'')
   \<and> (fst (handler (example_scenario\<lparr>get_outcome := GetBreaksOff ''PN''\<rparr>)
          example_request example_world) = NoResponse
    \<and> files (afterwards (snd (handler (example_scenario\<lparr>get_outcome := GetBreaksOff ''PN''\<rparr>)
          example_request example_world))) ''/app/backend/public/exports/a.png'' = Some ''PN''
    \<and> FsUnlink ''/app/backend/public/exports/a.png''
         \<notin> set (effects (snd (handler (example_scenario\<lparr>get_outcome := GetBreaksOff ''PN''\<rparr>)
          example_request example_world))))
   \<and> (fst (handler (example_scenario\<lparr>get_outcome := GetResponse 404 ''gone'',
            unlink_outcome := NotRemoved (Error ''EPERM: operation not permitted, unlink'')\<rparr>)
          example_request example_world) =
      Responded (Json 500 (ErrorDetailsBody ''Failed to download exported design'' ''Failed to download: 404''))
    \<and> files (afterwards (snd (handler (example_scenario\<lparr>get_outcome := GetResponse 404 ''gone'',
            unlink_outcome := NotRemoved (Error ''EPERM: operation not permitted, unlink'')\<rparr>)
          example_request example_world))) ''/app/backend/public/exports/a.png'' = Some [])
   \<and> (fst (handler (example_scenario\<lparr>get_outcome := GetResponse 404 ''gone'', unlink_outcome := RemovedLater\<rparr>)
          example_request example_world) =
      Responded (Json 500 (ErrorDetailsBody ''Failed to download exported design'' ''Failed to download: 404''))
    \<and> files (snd (handler (example_scenario\<lparr>get_outcome := GetResponse 404 ''gone'', unlink_outcome := RemovedLater\<rparr>)
          example_request example_world)) ''/app/backend/public/exports/a.png'' = Some [])
   \<and> (fst (handler (example_scenario\<lparr>get_outcome := GetThrows (Error ''Protocol http: not supported'')\<rparr>)
          example_request example_world) =
      Responded (Json 500 (ErrorDetailsBody ''Failed to download exported design'' ''Protocol http: not supported''))
    \<and> files (afterwards (snd (handler
          (example_scenario\<lparr>get_outcome := GetThrows (Error ''Protocol http: not supported'')\<rparr>)
          example_request example_world))) ''/app/backend/public/exports/a.png'' = Some [])
   \<and> (fst (handler (example_scenario\<lparr>get_outcome := GetError (Error ''read ECONNRESET''), open_late := True\<rparr>)
          example_request example_world) =
      Responded (Json 500 (ErrorDetailsBody ''Failed to download exported design'' ''read ECONNRESET''))
    \<and> files (afterwards (snd (handler
          (example_scenario\<lparr>get_outcome := GetError (Error ''read ECONNRESET''), open_late := True\<rparr>)
          example_request example_world))) ''/app/backend/public/exports/a.png'' = Some [])"
  by (simp add: run_defs example_defs string_of_nat.simps digit_def)

text \<open>
  Claim C1, amended: for every request whose download fails so that one of the three
  callbacks hears of it (the request emits \<^verbatim>\<open>error\<close>, the status is not 200, or, with a
  response of status 200, the write stream emits \<^verbatim>\<open>error\<close>), the handler calls
  \<^verbatim>\<open>fs.unlink\<close> on the file at the destination path before it answers, the answer is 500
  with the message of the error as details, and the store is as it was. When the open
  of the stream has acted before the callback runs: if the unlink acts at once, no
  file is at the destination path when the answer is sent; if the unlink acts at all,
  no file is there once the calls in flight have acted.
\<close>

theorem failed_download_calls_unlink:
  assumes "db_read sc = None"
    and "product_check req (find_product req w) = None"
    and "fileName_of sc req = Inr fileName"
    and "destinationPath sc \<in> dirs w \<or> mkdirSync_outcome sc = None"
    and "download_fails sc"
  shows "(\<exists>err. fst (handler sc req w) =
            Responded (Json 500 (ErrorDetailsBody ''Failed to download exported design'' (details err))))
       \<and> FsUnlink (destinationFile sc fileName) \<in> set (effects (snd (handler sc req w)))
       \<and> products (snd (handler sc req w)) = products w
       \<and> (\<not> open_late sc \<and> unlink_outcome sc = Removed \<longrightarrow>
            files (snd (handler sc req w)) (destinationFile sc fileName) = None)
       \<and> (\<not> open_late sc \<and> unlink_succeeds sc \<and> in_flight w = [] \<longrightarrow>
            files (afterwards (snd (handler sc req w))) (destinationFile sc fileName) = None)"
proof -
  let ?w1 = "snd (ensure_directory sc (destinationPath sc) (record_effect DbRead w))"
  let ?w2 = "snd (download sc (destinationFile sc fileName) (exportedDesignUrl req) ?w1)"
  obtain err where h: "handler sc req w =
      (Responded (Json 500 (ErrorDetailsBody ''Failed to download exported design'' (details err))), ?w2)"
    using handler_download_fails [OF assms] by blast
  have "FsUnlink (destinationFile sc fileName) \<in> set (effects ?w2)"
    by (rule download_fails_effects [OF assms(5)])
  moreover have "products ?w2 = products w"
    by simp
  moreover have "files ?w2 (destinationFile sc fileName) = None"
    if "\<not> open_late sc" "unlink_outcome sc = Removed"
    using download_fails_removed [OF assms(5) that] .
  moreover have "files (afterwards ?w2) (destinationFile sc fileName) = None"
    if "\<not> open_late sc" "unlink_succeeds sc" "in_flight w = []"
    using download_fails_afterwards [OF assms(5) that(1,2), of ?w1] that(3) by simp
  ultimately show ?thesis
    using h by auto
qed

theorem failed_download_calls_unlink_witness:
  "download_fails (example_scenario\<lparr>get_outcome := GetError (Error ''read ECONNRESET''),
      unlink_outcome := RemovedLater\<rparr>)
   \<and> FsUnlink ''/app/backend/public/exports/a.png''
        \<in> set (effects (snd (handler (example_scenario\<lparr>get_outcome := GetError (Error ''read ECONNRESET''),
                    unlink_outcome := RemovedLater\<rparr>)
                  example_request example_world)))
   \<and> files (afterwards (snd (handler (example_scenario\<lparr>get_outcome := GetError (Error ''read ECONNRESET''),
                    unlink_outcome := RemovedLater\<rparr>)
                  example_request example_world))) ''/app/backend/public/exports/a.png'' = None"
  using failed_download_calls_unlink
    [of "example_scenario\<lparr>get_outcome := GetError (Error ''read ECONNRESET''),
           unlink_outcome := RemovedLater\<rparr>" example_request example_world "''a.png''"]
  by (simp add: stage_defs download_fails_def unlink_succeeds_def example_defs)
subsection \<open>C2: nothing on disk before the status is seen\<close>




subsection \<open>C3: the product checks\<close>

text \<open>
  Claim C3 says that every request that supplies a product identifier is answered 404
  when the store has no product with it. Line 34 tests the identifier for truthiness:
  a request that supplies the empty string is not checked, and with no product of
  that identifier in the store the download runs and the answer is 200.
\<close>

theorem empty_productId_not_checked_counterexample:
  "fst (handler example_scenario (example_request\<lparr>productId := Some ''''\<rparr>) example_world) =
     Responded (Json 200 (DownloadedExportUrl ''http://localhost:3001/public/exports/a.png''))
   \<and> '''' \<notin> product_id ` set (products example_world)
   \<and> HttpsGet ''https://export.example/x/y/a.png''
        \<in> set (effects (snd (handler example_scenario (example_request\<lparr>productId := Some ''''\<rparr>)
                  example_world)))"
  by (simp add: run_defs example_defs)

text \<open>
  Claim C3, amended: for every request that supplies a non-empty product identifier,
  the answer is 404 with an error body when the store has no product with that
  identifier, and 400 with an error body when the product found has no design
  metadata; in both cases the handler returns with nothing done but the read of the
  store: no file name derived, no file system access, no network I/O.
\<close>

theorem product_checks_return_early:
  assumes "db_read sc = None"
    and "productId req = Some pid"
    and "pid \<noteq> []"
  shows "(pid \<notin> product_id ` set (products w) \<longrightarrow>
            handler sc req w =
              (Responded (Json 404 (ErrorBody ''Product not found'')), record_effect DbRead w))
       \<and> (\<forall>p. find_product req w = Some p \<and> canvaDesign p = None \<longrightarrow>
            handler sc req w =
              (Responded (Json 400 (ErrorBody ''No design found for product'')), record_effect DbRead w))"
  using assms find_product_None [OF assms(2), of w]
  by (auto simp: handler_def try_body_def respond_def product_check_def truthy_def)

theorem product_checks_return_early_witness:
  "handler example_scenario (example_request\<lparr>productId := Some ''p9''\<rparr>) example_world =
     (Responded (Json 404 (ErrorBody ''Product not found'')), record_effect DbRead example_world)
   \<and> handler example_scenario (example_request\<lparr>productId := Some ''p2''\<rparr>) example_world =
     (Responded (Json 400 (ErrorBody ''No design found for product'')), record_effect DbRead example_world)"
proof -
  have "handler example_scenario (example_request\<lparr>productId := Some ''p9''\<rparr>) example_world =
     (Responded (Json 404 (ErrorBody ''Product not found'')), record_effect DbRead example_world)"
    using product_checks_return_early
      [of example_scenario "example_request\<lparr>productId := Some ''p9''\<rparr>" "''p9''" example_world]
    by (simp add: example_defs)
  moreover have "handler example_scenario (example_request\<lparr>productId := Some ''p2''\<rparr>) example_world =
     (Responded (Json 400 (ErrorBody ''No design found for product'')), record_effect DbRead example_world)"
    using product_checks_return_early
      [of example_scenario "example_request\<lparr>productId := Some ''p2''\<rparr>" "''p2''" example_world]
    by (simp add: example_defs find_product_def)
  ultimately show ?thesis by simp
qed


subsection \<open>C4: a status other than 200\<close>

text \<open>
  Claim C4 says that for every request whose remote GET returns a status other than
  200, no file remains at the destination path afterwards and the response is 500.
  The response is 500, but a file can remain. With a file of an earlier export at the
  path and an unlink that fails, the callback of lines 80 to 82 does not look at the
  error and the truncated file stays. With no file at the path and the open of the
  stream still in flight when the response callback runs, the unlink finds nothing to
  remove and the open then creates the file.
\<close>

theorem non_200_file_stays_counterexample:
  "(fst (handler (example_scenario\<lparr>get_outcome := GetResponse 503 ''busy'',
            unlink_outcome := NotRemoved (Error ''EACCES: permission denied, unlink'')\<rparr>)
          example_request example_world_with_file) =
      Responded (Json 500 (ErrorDetailsBody ''Failed to download exported design'' ''Failed to download: 503''))
    \<and> files (afterwards (snd (handler (example_scenario\<lparr>get_outcome := GetResponse 503 ''busy'',
            unlink_outcome := NotRemoved (Error ''EACCES: permission denied, unlink'')\<rparr>)
          example_request example_world_with_file))) ''/app/backend/public/exports/a.png'' = Some [])
   \<and> (fst (handler (example_scenario\<lparr>get_outcome := GetResponse 503 ''busy'', open_late := True\<rparr>)
          example_request example_world) =
      Responded (Json 500 (ErrorDetailsBody ''Failed to download exported design'' ''Failed to download: 503''))
    \<and> files (afterwards (snd (handler (example_scenario\<lparr>get_outcome := GetResponse 503 ''busy'',
            open_late := True\<rparr>)
          example_request example_world))) ''/app/backend/public/exports/a.png'' = Some [])"
  by (simp add: run_defs example_defs string_of_nat.simps digit_def)

text \<open>
  Claim C4, amended: for every request whose remote GET returns a status other than
  200, the response is 500 (with the status in its details when the stream had
  opened) and the handler calls \<^verbatim>\<open>fs.unlink\<close> on the destination path; no file remains
  at the destination path afterwards, provided the unlink acts and the open of the
  stream has acted before the response callback runs.
\<close>

theorem non_200_answers_500_and_unlinks:
  assumes "db_read sc = None"
    and "product_check req (find_product req w) = None"
    and "fileName_of sc req = Inr fileName"
    and "destinationPath sc \<in> dirs w \<or> mkdirSync_outcome sc = None"
    and "get_outcome sc = GetResponse statusCode bytes"
    and "statusCode \<noteq> 200"
  shows "(\<exists>d. fst (handler sc req w) =
            Responded (Json 500 (ErrorDetailsBody ''Failed to download exported design'' d)))
       \<and> (open_outcome sc = None \<longrightarrow>
            fst (handler sc req w) =
              Responded (Json 500 (ErrorDetailsBody ''Failed to download exported design''
                (''Failed to download: '' @ string_of_nat statusCode))))
       \<and> FsUnlink (destinationFile sc fileName) \<in> set (effects (snd (handler sc req w)))
       \<and> (\<not> open_late sc \<and> unlink_succeeds sc \<and> in_flight w = [] \<longrightarrow>
            files (afterwards (snd (handler sc req w))) (destinationFile sc fileName) = None)"
proof -
  let ?w1 = "snd (ensure_directory sc (destinationPath sc) (record_effect DbRead w))"
  let ?st = "download sc (destinationFile sc fileName) (exportedDesignUrl req) ?w1"
  have f: "download_fails sc"
    using assms(5,6) by (simp add: download_fails_def)
  obtain err where h: "handler sc req w =
      (Responded (Json 500 (ErrorDetailsBody ''Failed to download exported design'' (details err))), snd ?st)"
    using handler_download_fails [OF assms(1-4) f] by blast
  have "fst ?st = Rejected (Error (''Failed to download: '' @ string_of_nat statusCode))"
    if "open_outcome sc = None"
    using that assms(5,6)
    by (simp add: download_def stream_opened_def on_response_def reject_def Let_def)
  then have "fst (handler sc req w) =
      Responded (Json 500 (ErrorDetailsBody ''Failed to download exported design''
        (''Failed to download: '' @ string_of_nat statusCode)))"
    if "open_outcome sc = None"
    using that handler_reaches_download [OF assms(1-4)] respond_rejected [of ?st]
    by (simp add: details_def)
  moreover have "FsUnlink (destinationFile sc fileName) \<in> set (effects (snd ?st))"
    by (rule download_fails_effects [OF f])
  moreover have "files (afterwards (snd ?st)) (destinationFile sc fileName) = None"
    if "\<not> open_late sc" "unlink_succeeds sc" "in_flight w = []"
    using download_fails_afterwards [OF f that(1,2), of ?w1] that(3) by simp
  ultimately show ?thesis
    using h by auto
qed

theorem non_200_answers_500_and_unlinks_witness:
  "get_outcome (example_scenario\<lparr>get_outcome := GetResponse 404 ''gone''\<rparr>) = GetResponse 404 ''gone''
   \<and> fst (handler (example_scenario\<lparr>get_outcome := GetResponse 404 ''gone''\<rparr>)
             example_request example_world) =
       Responded (Json 500 (ErrorDetailsBody ''Failed to download exported design''
         ''Failed to download: 404''))
   \<and> files (afterwards (snd (handler (example_scenario\<lparr>get_outcome := GetResponse 404 ''gone''\<rparr>)
                  example_request example_world))) ''/app/backend/public/exports/a.png'' = None"
  using non_200_answers_500_and_unlinks
    [of "example_scenario\<lparr>get_outcome := GetResponse 404 ''gone''\<rparr>" example_request
        example_world "''a.png''" 404 "''gone''"]
  by (simp add: stage_defs unlink_succeeds_def example_defs string_of_nat.simps digit_def)
subsection \<open>C5: a successful download\<close>

lemma update_product_ok:
  assumes "\<not> truthy (productId req) \<or> writeProduct_outcome sc = None"
  shows "\<exists>w'. update_product sc req product url w = (None, w') \<and> files w' = files w"
  using assms
  by (auto simp: update_product_def writeProduct_def Let_def split: option.splits)

lemma fileName_of_Inr:
  assumes "fileName_of sc req = Inr fileName"
  shows "\<exists>exportPathName. url_pathname sc (exportedDesignUrl req) = Inr exportPathName
           \<and> fileName = last (split_on CHR ''/'' exportPathName) \<and> fileName \<noteq> []"
  using assms
  by (auto simp: fileName_of_def pop_def split: sum.splits option.splits if_splits)

text \<open>
  Claim C5: for every request whose source URL returns 200 with body bytes \<open>bytes\<close>,
  and that nothing else stops (the steps before the download passed, the stream opens
  and takes the bytes, the store update, if there is one, succeeds), the handler
  responds 200 with \<^verbatim>\<open>{ downloadedExportUrl }\<close>, where the URL is the configured base URL
  followed by \<^verbatim>\<open>/public/exports/\<close> and the file name, the file name is the last piece of
  the path of the source URL, and the file at the destination path holds exactly
  \<open>bytes\<close>.
\<close>

theorem successful_download:
  assumes "db_read sc = None"
    and "product_check req (find_product req w) = None"
    and "fileName_of sc req = Inr fileName"
    and "destinationPath sc \<in> dirs w \<or> mkdirSync_outcome sc = None"
    and "open_outcome sc = None"
    and "get_outcome sc = GetResponse 200 bytes"
    and "write_outcome sc = None"
    and "\<not> truthy (productId req) \<or> writeProduct_outcome sc = None"
    and "BACKEND_URL sc = Some base"
  shows "fst (handler sc req w) =
           Responded (Json 200 (DownloadedExportUrl (base @ ''/public/exports/'' @ fileName)))
       \<and> files (snd (handler sc req w)) (destinationFile sc fileName) = Some bytes
       \<and> (\<exists>exportPathName. url_pathname sc (exportedDesignUrl req) = Inr exportPathName
             \<and> fileName = last (split_on CHR ''/'' exportPathName))"
proof -
  let ?w1 = "snd (ensure_directory sc (destinationPath sc) (record_effect DbRead w))"
  let ?st = "download sc (destinationFile sc fileName) (exportedDesignUrl req) ?w1"
  obtain w2 where st: "?st = (Resolved, w2)"
    and w2: "files w2 = (files ?w1)(destinationFile sc fileName \<mapsto> bytes)"
    using download_succeeds [OF assms(5-7), of "destinationFile sc fileName" "exportedDesignUrl req" ?w1]
    by (cases ?st) auto
  obtain w3 where
    up: "update_product sc req (find_product req w) (designExportUrl_of sc fileName) w2 = (None, w3)"
    and w3: "files w3 = files w2"
    using update_product_ok [OF assms(8)] by blast
  have "handler sc req w =
      (Responded (Json 200 (DownloadedExportUrl (designExportUrl_of sc fileName))), w3)"
    using handler_reaches_download [OF assms(1-4)] st up
    by (simp add: after_download_def respond_def)
  then show ?thesis
    using w2 w3 assms(9) fileName_of_Inr [OF assms(3)]
    by (auto simp: designExportUrl_of_def template_def)
qed

theorem successful_download_witness:
  "fst (handler example_scenario example_request example_world) =
     Responded (Json 200 (DownloadedExportUrl ''http://localhost:3001/public/exports/a.png''))
   \<and> files (snd (handler example_scenario example_request example_world))
        ''/app/backend/public/exports/a.png'' = Some ''PNG''"
  using successful_download
    [of example_scenario example_request example_world "''a.png''" "''PNG''" "''http://localhost:3001''"]
  by (simp add: stage_defs example_defs)

subsection \<open>C6: the product after a successful download\<close>

lemma replace_product_found:
  assumes "find (\<lambda>q. product_id q = pid) ps = Some p"
    and "product_id p' = pid"
  shows "\<exists>xs ys. ps = xs @ p # ys \<and> replace_product p' ps = xs @ p' # ys
           \<and> find (\<lambda>q. product_id q = pid) (replace_product p' ps) = Some p'"
  using assms
proof (induction ps)
  case Nil
  then show ?case by simp
next
  case (Cons q qs)
  show ?case
  proof (cases "product_id q = pid")
    case True
    then have "q = p" using Cons.prems(1) by simp
    then have "q # qs = [] @ p # qs \<and> replace_product p' (q # qs) = [] @ p' # qs
        \<and> find (\<lambda>q. product_id q = pid) (replace_product p' (q # qs)) = Some p'"
      using True Cons.prems(2) by simp
    then show ?thesis by blast
  next
    case False
    then have "find (\<lambda>q. product_id q = pid) qs = Some p"
      using Cons.prems(1) by simp
    then obtain xs ys where "qs = xs @ p # ys" "replace_product p' qs = xs @ p' # ys"
        "find (\<lambda>q. product_id q = pid) (replace_product p' qs) = Some p'"
      using Cons.IH Cons.prems(2) by blast
    then have "q # qs = (q # xs) @ p # ys \<and> replace_product p' (q # qs) = (q # xs) @ p' # ys
        \<and> find (\<lambda>q. product_id q = pid) (replace_product p' (q # qs)) = Some p'"
      using False Cons.prems(2) by simp
    then show ?thesis by blast
  qed
qed

text \<open>
  Claim C6: for every request with a valid product identifier and a successful
  download, the stored product has afterwards, in its design metadata, the new locally
  served URL as \<open>designExportUrl\<close>; every other field of the design metadata and of the
  product is as before (the stored record is the old one with that one field
  replaced), and so is every other product of the store.
\<close>

theorem product_updated_with_export_url:
  assumes "db_read sc = None"
    and "productId req = Some pid"
    and "pid \<noteq> []"
    and "find_product req w = Some p"
    and "canvaDesign p = Some design"
    and "fileName_of sc req = Inr fileName"
    and "destinationPath sc \<in> dirs w \<or> mkdirSync_outcome sc = None"
    and "open_outcome sc = None"
    and "get_outcome sc = GetResponse 200 bytes"
    and "write_outcome sc = None"
    and "writeProduct_outcome sc = None"
  shows "fst (handler sc req w) =
           Responded (Json 200 (DownloadedExportUrl (designExportUrl_of sc fileName)))
       \<and> (\<exists>xs ys. products w = xs @ p # ys
             \<and> products (snd (handler sc req w)) =
                 xs @ p\<lparr>canvaDesign :=
                          Some (design\<lparr>designExportUrl := Some (designExportUrl_of sc fileName)\<rparr>)\<rparr> # ys)
       \<and> find_product req (snd (handler sc req w)) =
           Some (p\<lparr>canvaDesign :=
                    Some (design\<lparr>designExportUrl := Some (designExportUrl_of sc fileName)\<rparr>)\<rparr>)"
proof -
  let ?url = "designExportUrl_of sc fileName"
  let ?p' = "p\<lparr>canvaDesign := Some (design\<lparr>designExportUrl := Some ?url\<rparr>)\<rparr>"
  let ?w1 = "snd (ensure_directory sc (destinationPath sc) (record_effect DbRead w))"
  let ?st = "download sc (destinationFile sc fileName) (exportedDesignUrl req) ?w1"
  have check: "product_check req (find_product req w) = None"
    using assms(2-5) by (simp add: product_check_def truthy_def)
  have found: "find (\<lambda>q. product_id q = pid) (products w) = Some p"
    using assms(2,4) by (simp add: find_product_def)
  then have pid: "product_id p = pid"
    by (auto simp: find_Some_iff)
  obtain w2 where st: "?st = (Resolved, w2)" and w2: "products w2 = products w"
    using download_succeeds(1) [OF assms(8-10), of "destinationFile sc fileName" "exportedDesignUrl req" ?w1]
      download_products [of sc "destinationFile sc fileName" "exportedDesignUrl req" ?w1]
    by (cases ?st) auto
  have up: "update_product sc req (Some p) ?url w2 =
      (None, (record_effect (DbWriteProduct pid) w2)\<lparr>products := replace_product ?p' (products w)\<rparr>)"
    using assms(2,3,5,11) pid w2
    by (simp add: update_product_def truthy_def writeProduct_def with_export_url_def Let_def)
  have h: "handler sc req w =
      (Responded (Json 200 (DownloadedExportUrl ?url)),
       (record_effect (DbWriteProduct pid) w2)\<lparr>products := replace_product ?p' (products w)\<rparr>)"
    using handler_reaches_download [OF assms(1) check assms(6,7)] st up assms(4)
    by (simp add: after_download_def respond_def)
  have "product_id ?p' = pid"
    using pid by simp
  from replace_product_found [OF found this]
  show ?thesis
    using h assms(2) by (auto simp: find_product_def)
qed

theorem product_updated_with_export_url_witness:
  "products (snd (handler example_scenario example_request example_world)) =
     [\<lparr>product_id = ''p1'',
       canvaDesign = Some \<lparr>designExportUrl = Some ''http://localhost:3001/public/exports/a.png''\<rparr>\<rparr>,
      \<lparr>product_id = ''p2'', canvaDesign = None\<rparr>]"
  using product_updated_with_export_url
    [of example_scenario example_request "''p1''" example_world
        "\<lparr>product_id = ''p1'', canvaDesign = Some \<lparr>designExportUrl = Some ''https://export.example/old''\<rparr>\<rparr>"
        "\<lparr>designExportUrl = Some ''https://export.example/old''\<rparr>" "''a.png''" "''PNG''"]
  by (auto simp: stage_defs example_defs designExportUrl_of_def template_def Cons_eq_append_conv)

subsection \<open>C7: errors at the handler boundary\<close>

text \<open>
  Once the store has been read, every run ends in one of the four responses, unless a
  response of status 200 breaks off: then the promise of the download may never settle
  and the request stays unanswered (\<open>download_breaks_off\<close>).
\<close>

lemma after_download_answers:
  assumes "fst st \<noteq> Pending"
  shows "(\<exists>url. fst (after_download sc req product fileName st) =
            Returns (Json 200 (DownloadedExportUrl url)))
       \<or> (\<exists>err. fst (after_download sc req product fileName st) = Throws err)"
  using assms
  by (cases st) (auto simp: after_download_def split: promise.splits option.splits prod.splits)

lemma try_body_answers:
  assumes "\<forall>bytes. get_outcome sc \<noteq> GetBreaksOff bytes"
  shows "fst (try_body sc req w) = Returns (Json 404 (ErrorBody ''Product not found''))
   \<or> fst (try_body sc req w) = Returns (Json 400 (ErrorBody ''No design found for product''))
   \<or> (\<exists>url. fst (try_body sc req w) = Returns (Json 200 (DownloadedExportUrl url)))
   \<or> (\<exists>err. fst (try_body sc req w) = Throws err)"
proof (cases "product_check req (find_product req w)")
  case (Some res)
  then show ?thesis
    by (auto simp: try_body_def product_check_def split: if_splits option.splits)
next
  case None
  show ?thesis
  proof (cases "fileName_of sc req")
    case (Inl err)
    then show ?thesis using None by (simp add: try_body_def)
  next
    case (Inr fileName)
    obtain r w1 where e: "ensure_directory sc (destinationPath sc) w = (r, w1)"
      by (cases "ensure_directory sc (destinationPath sc) w")
    show ?thesis
    proof (cases r)
      case (Some err)
      then show ?thesis using None Inr e by (simp add: try_body_def)
    next
      case rNone: None
      have "try_body sc req w = after_download sc req (find_product req w) fileName
              (download sc (destinationFile sc fileName) (exportedDesignUrl req) w1)"
        using None Inr e rNone by (simp add: try_body_def)
      then show ?thesis
        using after_download_answers [OF download_settles [OF assms]] by metis
    qed
  qed
qed

lemma handler_answers_after_store_read:
  assumes "db_read sc = None"
    and "\<forall>bytes. get_outcome sc \<noteq> GetBreaksOff bytes"
  shows "fst (handler sc req w) = Responded (Json 404 (ErrorBody ''Product not found''))
   \<or> fst (handler sc req w) = Responded (Json 400 (ErrorBody ''No design found for product''))
   \<or> (\<exists>url. fst (handler sc req w) = Responded (Json 200 (DownloadedExportUrl url)))
   \<or> (\<exists>err. fst (handler sc req w) =
         Responded (Json 500 (ErrorDetailsBody ''Failed to download exported design'' (details err))))"
proof -
  obtain c w1 where t: "try_body sc req (record_effect DbRead w) = (c, w1)"
    by (cases "try_body sc req (record_effect DbRead w)")
  then have h: "handler sc req w = respond (c, w1)"
    using assms(1) by (simp add: handler_def)
  show ?thesis
    using try_body_answers [OF assms(2), of req "record_effect DbRead w"] t h
    by (auto simp: respond_def)
qed

text \<open>
  Claim C7 says that every error raised while a request is handled, the read of the
  store included, is caught and answered with one of the structured error responses.
  The \<^verbatim>\<open>try\<close> begins at line 28, after the read of the store at line 24: when the read
  throws, the error leaves the handler and no response is sent. The update of the
  store, line 115, is inside the \<^verbatim>\<open>try\<close> and is answered.
\<close>

theorem store_read_error_escapes:
  "handler (example_scenario\<lparr>db_read := Some (Error ''Unexpected end of JSON input'')\<rparr>)
      example_request example_world =
     (Escaped (Error ''Unexpected end of JSON input''), record_effect DbRead example_world)"
  by (simp add: handler_def example_scenario_def)

subsection \<open>C8: a URL without a file name\<close>

text \<open>
  Claim C8: for every source URL whose path has no last non-empty piece (as
  \<^verbatim>\<open>https://host\<close>, whose path is \<^verbatim>\<open>/\<close>), the handler answers 500 with the error of the
  file name extraction, and nothing but the read of the store has happened by then:
  no network I/O. By \<open>pop_split_on_empty\<close> these are the empty path and the paths that
  end in \<^verbatim>\<open>/\<close>.
\<close>

theorem no_file_name_is_500:
  assumes "db_read sc = None"
    and "product_check req (find_product req w) = None"
    and "url_pathname sc (exportedDesignUrl req) = Inr exportPathName"
    and "pop (split_on CHR ''/'' exportPathName) = None
         \<or> pop (split_on CHR ''/'' exportPathName) = Some []"
  shows "handler sc req w =
           (Responded (Json 500 (ErrorDetailsBody ''Failed to download exported design''
              ''Could not extract filename from export URL'')),
            record_effect DbRead w)"
  using assms
  by (auto simp: handler_def try_body_def respond_def fileName_of_def details_def)

theorem no_file_name_is_500_witness:
  "url_pathname example_scenario ''https://host'' = Inr ''/''
   \<and> handler example_scenario \<lparr>productId = None, exportedDesignUrl = ''https://host''\<rparr> example_world =
       (Responded (Json 500 (ErrorDetailsBody ''Failed to download exported design''
          ''Could not extract filename from export URL'')),
        record_effect DbRead example_world)"
  using no_file_name_is_500
    [of example_scenario "\<lparr>productId = None, exportedDesignUrl = ''https://host''\<rparr>" example_world "''/''"]
  by (simp add: stage_defs example_defs)


subsection \<open>C9: a file that was there before\<close>

text \<open>
  Claim C9 says that a file that exists at the destination path before the request
  does not survive a failed download (a status other than 200, a transport error or a
  write error): the open of the stream truncates it and the cleanup unlink removes it.
  Three runs with the file of an earlier export at the path where it is not so:
  \<^item> the file can be neither opened for writing nor unlinked: the status is 503, the
    answer is 500, and the file is there afterwards with its old content;
  \<^item> a transport error: the response of status 200 breaks off after two bytes; the
    old content is gone, but unlink is never called, the file stays with the two
    bytes, and the request is never answered;
  \<^item> the status is 503 and the open of the stream is still in flight when the
    response callback runs: the unlink removes the old file, then the open creates
    an empty one, which is at the path afterwards.
\<close>

theorem existing_file_can_survive_counterexample:
  "(files example_world_with_file ''/app/backend/public/exports/a.png'' = Some ''OLD''
    \<and> fst (handler (example_scenario\<lparr>get_outcome := GetResponse 503 ''busy'',
            open_outcome := Some (Error ''EACCES: permission denied, open''),
            unlink_outcome := NotRemoved (Error ''EACCES: permission denied, unlink'')\<rparr>)
          example_request example_world_with_file) =
      Responded (Json 500 (ErrorDetailsBody ''Failed to download exported design''
        ''EACCES: permission denied, open''))
    \<and> files (afterwards (snd (handler (example_scenario\<lparr>get_outcome := GetResponse 503 ''busy'',
            open_outcome := Some (Error ''EACCES: permission denied, open''),
            unlink_outcome := NotRemoved (Error ''EACCES: permission denied, unlink'')\<rparr>)
          example_request example_world_with_file))) ''/app/backend/public/exports/a.png'' = Some ''OLD'')
   \<and> (fst (handler (example_scenario\<lparr>get_outcome := GetBreaksOff ''PN''\<rparr>)
          example_request example_world_with_file) = NoResponse
    \<and> files (afterwards (snd (handler (example_scenario\<lparr>get_outcome := GetBreaksOff ''PN''\<rparr>)
          example_request example_world_with_file))) ''/app/backend/public/exports/a.png'' = Some ''PN''
    \<and> FsUnlink ''/app/backend/public/exports/a.png''
         \<notin> set (effects (snd (handler (example_scenario\<lparr>get_outcome := GetBreaksOff ''PN''\<rparr>)
          example_request example_world_with_file))))
   \<and> (FsUnlink ''/app/backend/public/exports/a.png''
         \<in> set (effects (snd (handler (example_scenario\<lparr>get_outcome := GetResponse 503 ''busy'',
            open_late := True\<rparr>) example_request example_world_with_file)))
    \<and> files (afterwards (snd (handler (example_scenario\<lparr>get_outcome := GetResponse 503 ''busy'',
            open_late := True\<rparr>) example_request example_world_with_file)))
          ''/app/backend/public/exports/a.png'' = Some [])"
  by (simp add: run_defs example_defs string_of_nat.simps digit_def)

text \<open>
  Claim C9, amended: whatever is at the destination path before the request, a file of
  an earlier export included, for every request whose download fails so that one of
  the three callbacks hears of it (a status other than 200, the request emits
  \<^verbatim>\<open>error\<close>, or, with a response of status 200, the write stream emits \<^verbatim>\<open>error\<close>): the
  cleanup unlink is called; if it acts, and the open of the stream has acted before
  the callback runs, no file is at the path afterwards; and if the stream opens, then
  whatever the unlink does, what is at the path afterwards is nothing or a piece of
  the body that arrived, so the content that was there before is gone and nothing
  puts it back.
\<close>

theorem earlier_file_after_failed_download:
  assumes "db_read sc = None"
    and "product_check req (find_product req w) = None"
    and "fileName_of sc req = Inr fileName"
    and "destinationPath sc \<in> dirs w \<or> mkdirSync_outcome sc = None"
    and "in_flight w = []"
    and "download_fails sc"
  shows "FsUnlink (destinationFile sc fileName) \<in> set (effects (snd (handler sc req w)))
       \<and> (\<not> open_late sc \<and> unlink_succeeds sc \<longrightarrow>
            files (afterwards (snd (handler sc req w))) (destinationFile sc fileName) = None)
       \<and> (open_outcome sc = None \<longrightarrow>
            files (afterwards (snd (handler sc req w))) (destinationFile sc fileName) = None
            \<or> (\<exists>n. files (afterwards (snd (handler sc req w))) (destinationFile sc fileName) =
                     Some (take n (arrived sc))))"
proof -
  let ?w1 = "snd (ensure_directory sc (destinationPath sc) (record_effect DbRead w))"
  let ?w2 = "snd (download sc (destinationFile sc fileName) (exportedDesignUrl req) ?w1)"
  have i: "in_flight ?w1 = []"
    using assms(5) by simp
  obtain err where h: "handler sc req w =
      (Responded (Json 500 (ErrorDetailsBody ''Failed to download exported design'' (details err))), ?w2)"
    using handler_download_fails [OF assms(1-4,6)] by blast
  have "FsUnlink (destinationFile sc fileName) \<in> set (effects ?w2)"
    by (rule download_fails_effects [OF assms(6)])
  moreover have "files (afterwards ?w2) (destinationFile sc fileName) = None"
    if "\<not> open_late sc" "unlink_succeeds sc"
    using download_fails_afterwards [OF assms(6) that i] .
  moreover have "files (afterwards ?w2) (destinationFile sc fileName) = None
      \<or> (\<exists>n. files (afterwards ?w2) (destinationFile sc fileName) = Some (take n (arrived sc)))"
    if "open_outcome sc = None"
    using download_fails_prefix [OF assms(6) that i] .
  ultimately show ?thesis
    using h by auto
qed

theorem earlier_file_after_failed_download_witness:
  "files example_world_with_file ''/app/backend/public/exports/a.png'' = Some ''OLD''
   \<and> download_fails (example_scenario\<lparr>get_outcome := GetResponse 200 ''PNG'',
        write_outcome := Some (2, Error ''ENOSPC: no space left on device, write'')\<rparr>)
   \<and> files (afterwards (snd (handler (example_scenario\<lparr>get_outcome := GetResponse 200 ''PNG'',
        write_outcome := Some (2, Error ''ENOSPC: no space left on device, write'')\<rparr>) example_request
        example_world_with_file))) ''/app/backend/public/exports/a.png'' = None"
  using earlier_file_after_failed_download
    [of "example_scenario\<lparr>get_outcome := GetResponse 200 ''PNG'',
           write_outcome := Some (2, Error ''ENOSPC: no space left on device, write'')\<rparr>" example_request
        example_world_with_file "''a.png''"]
  by (simp add: stage_defs download_fails_def unlink_succeeds_def example_defs)
subsection \<open>C10: the empty product identifier\<close>

text \<open>
  Claim C10: a request whose product identifier is the empty string is handled exactly
  as the same request without a product identifier: the same response, the same
  effects, the same files and the same store afterwards, whatever the store holds;
  so no 404 or 400 comes from the product checks and no product is updated.
\<close>

theorem empty_productId_as_absent:
  "handler sc (req\<lparr>productId := Some []\<rparr>) w = handler sc (req\<lparr>productId := None\<rparr>) w"
proof -
  have a: "\<not> truthy (productId (req\<lparr>productId := Some []\<rparr>))"
    and b: "\<not> truthy (productId (req\<lparr>productId := None\<rparr>))"
    by (simp_all add: truthy_def)
  have "try_body sc (req\<lparr>productId := Some []\<rparr>) (record_effect DbRead w) =
        try_body sc (req\<lparr>productId := None\<rparr>) (record_effect DbRead w)"
    by (auto simp: try_body_def product_check_falsy [OF a] product_check_falsy [OF b]
        split: sum.splits prod.splits option.splits intro!: after_download_falsy [OF a b])
  then show ?thesis
    by (simp add: handler_def Let_def split: option.splits)
qed


end
